theory Spec2Isabelle
  imports Main "HOL-Library.AList" "HOL-Library.Sublist"
begin

section \<open>Data model\<close>

text \<open>
  The guided-flow pages keep their state in React hooks and talk to the backend through
  axios. Each handler is embedded as a function from the state of the render it closes
  over (and the outcome of the backend calls it awaits) to the state after its setters
  ran, paired with the list of effects it issued, in order.

  A JavaScript object with string keys is an association list: \<open>{...prev, [k]: v}\<close> is
  \<open>AList.update k v prev\<close> and \<open>obj[k]\<close> is \<open>map_of obj k\<close>, \<open>None\<close> standing for
  \<open>undefined\<close>. An optional field is an \<open>option\<close>. A character is one code unit below 256.
\<close>

type_synonym answers = "(string \<times> string) list"

record input_field =
  input_id :: string
  input_type :: string
  input_label :: string
  required :: bool

record step_data =
  slug :: "string option"
  step_type :: "string option"
  title :: "string option"
  content :: "string option"
  visibility :: "string option"
  inputs :: "input_field list option"
  escalationEnabled :: bool
  escalationCategory :: "string option"

record node =
  node_id :: "string option"
  data :: "step_data option"

text \<open>\<open>graph_nodes\<close> is \<open>version.graph?.nodes\<close>: \<open>None\<close> when the graph or its node array is absent.\<close>

record version =
  graph_nodes :: "node list option"

record guide =
  guide_id :: string
  guide_slug :: string
  guide_title :: string
  current_version_id :: "string option"

record session =
  session_id :: string

record customer_info =
  ci_email :: string
  ci_phone :: string

record crm_data =
  crm_id :: string
  crm_email :: string
  account_id :: string
  ticket_id :: string

record user =
  user_id :: string
  user_email :: string
  user_role :: string

datatype role = Customer | Agent

subsection \<open>Requests and effects\<close>

record snapshot_entry =
  snap_step :: "string option"
  snap_answers :: answers

record customer_escalation =
  ce_session_id :: string
  ce_guide_id :: string
  ce_step_id :: "string option"
  ce_category :: string
  ce_message :: string
  ce_history_snapshot :: "snapshot_entry list"
  ce_contact :: customer_info

record agent_escalation =
  ae_session_id :: string
  ae_guide_id :: string
  ae_step_id :: "string option"
  ae_category :: string
  ae_message :: string
  ae_history_snapshot :: "node list"
  ae_contact_agent_email :: string
  ae_contact_crm_id :: string

datatype props =
    Answers_props answers
  | Completed_props nat "string option"
  | Escalation_props customer_escalation
  | Crm_props crm_data

record event =
  ev_session_id :: string
  ev_step_id :: "string option"
  ev_action :: string
  ev_props :: props

text \<open>
  \<open>Patch_crm_context sid crm agent_id agent_name\<close> is the PATCH of
  \<open>/api/sessions/sid/crm-context\<close>; \<open>Clipboard_write\<close> carries the fields the CRM note is
  built from (guide title, agent email, session id, CRM id, steps completed, answers).
\<close>

datatype request =
    Get_guides
  | Get_version string string
  | Post_session string string
  | Post_event event
  | Post_complete string
  | Post_escalation customer_escalation
  | Post_agent_escalation agent_escalation
  | Patch_crm_context string crm_data string string
  | Clipboard_write string string string string nat answers

datatype effect =
    Request request
  | Toast_error string
  | Toast_success string
  | Console_error string

text \<open>The backend as the handlers see it: a request resolves (\<open>True\<close>) or rejects.\<close>

type_synonym sink = "request \<Rightarrow> bool"

text \<open>The bodies of the calls the pages make.\<close>

definition step_completed :: "session \<Rightarrow> node \<Rightarrow> answers \<Rightarrow> request" where
  "step_completed sess cur ans =
     Post_event \<lparr>ev_session_id = session_id sess, ev_step_id = node_id cur,
       ev_action = ''step_completed'', ev_props = Answers_props ans\<rparr>"

definition session_completed :: "session \<Rightarrow> nat \<Rightarrow> string option \<Rightarrow> request" where
  "session_completed sess total_steps completion_type =
     Post_event \<lparr>ev_session_id = session_id sess, ev_step_id = None,
       ev_action = ''session_completed'', ev_props = Completed_props total_steps completion_type\<rparr>"

definition escalation_submitted :: "customer_escalation \<Rightarrow> request" where
  "escalation_submitted escalationData =
     Post_event \<lparr>ev_session_id = ce_session_id escalationData,
       ev_step_id = ce_step_id escalationData,
       ev_action = ''escalation_submitted'', ev_props = Escalation_props escalationData\<rparr>"

definition crm_form_submitted :: "session \<Rightarrow> crm_data \<Rightarrow> request" where
  "crm_form_submitted sess crmData =
     Post_event \<lparr>ev_session_id = session_id sess, ev_step_id = None,
       ev_action = ''crm_form_submitted'', ev_props = Crm_props crmData\<rparr>"

subsection \<open>JavaScript helpers\<close>

text \<open>\<open>String.prototype.trim\<close> strips white space and line terminators at both ends.\<close>

definition is_space :: "char \<Rightarrow> bool" where
  "is_space c = (c \<in> set [CHR 0x09, CHR 0x0A, CHR 0x0B, CHR 0x0C, CHR 0x0D, CHR 0x20, CHR 0xA0])"

definition trim :: "string \<Rightarrow> string" where
  "trim s = rev (dropWhile is_space (rev (dropWhile is_space s)))"

text \<open>\<open>!s.trim()\<close>: the trimmed string is empty.\<close>

definition blank :: "string \<Rightarrow> bool" where
  "blank s = (trim s = [])"

text \<open>JavaScript truthiness of an optional string: defined and not empty.\<close>

definition truthy :: "string option \<Rightarrow> bool" where
  "truthy x = (case x of None \<Rightarrow> False | Some v \<Rightarrow> v \<noteq> [])"

text \<open>\<open>xs[i]\<close> is \<open>undefined\<close> out of range.\<close>

definition at_index :: "'a list \<Rightarrow> nat \<Rightarrow> 'a option" where
  "at_index xs i = (if i < length xs then Some (xs ! i) else None)"

text \<open>\<open>Array.prototype.findIndex\<close>: the first position satisfying the predicate, or -1.\<close>

fun findIndex :: "('a \<Rightarrow> bool) \<Rightarrow> 'a list \<Rightarrow> int" where
  "findIndex P [] = -1"
| "findIndex P (x # xs) =
     (if P x then 0 else (let r = findIndex P xs in if r = -1 then -1 else r + 1))"

text \<open>\<open>node.data?.f\<close> for an optional field \<open>f\<close>.\<close>

definition data_field :: "(step_data \<Rightarrow> 'a option) \<Rightarrow> node \<Rightarrow> 'a option" where
  "data_field f n = (case data n of None \<Rightarrow> None | Some d \<Rightarrow> f d)"

text \<open>\<open>currentStep.data?.escalationCategory || 'general'\<close>.\<close>

definition category_of :: "node \<Rightarrow> string" where
  "category_of n =
     (case data_field escalationCategory n of
        None \<Rightarrow> ''general''
      | Some c \<Rightarrow> if c = [] then ''general'' else c)"

section \<open>Visible steps\<close>

text \<open>
  The customer widget walks \<open>nodes.filter(node => node.data?.visibility !== 'agent')\<close>,
  the agent portal walks \<open>nodes\<close> itself.
\<close>

definition agent_only :: "node \<Rightarrow> bool" where
  "agent_only n = (data_field visibility n = Some ''agent'')"

definition visibleSteps :: "role \<Rightarrow> node list \<Rightarrow> node list" where
  "visibleSteps r ns = (case r of Customer \<Rightarrow> filter (\<lambda>n. \<not> agent_only n) ns | Agent \<Rightarrow> ns)"

section \<open>The customer widget\<close>

record widget_state =
  cw_guide :: "guide option"
  cw_version :: "version option"
  cw_session :: "session option"
  cw_currentStep :: "node option"
  cw_stepIndex :: nat
  cw_answers :: answers
  cw_customerInfo :: customer_info
  cw_showEscalation :: bool
  cw_escalationMessage :: string
  cw_loading :: bool

text \<open>\<open>version.graph.nodes\<close>, a TypeError (\<open>None\<close>) when a link of the chain is missing.\<close>

definition cw_nodes :: "widget_state \<Rightarrow> node list option" where
  "cw_nodes s = (case cw_version s of None \<Rightarrow> None | Some v \<Rightarrow> graph_nodes v)"

definition cw_handleInputChange :: "string \<Rightarrow> string \<Rightarrow> widget_state \<Rightarrow> widget_state" where
  "cw_handleInputChange inputId v s = s\<lparr>cw_answers := AList.update inputId v (cw_answers s)\<rparr>"

text \<open>\<open>!answers[input.id]?.trim()\<close>: the answer is undefined or blank.\<close>

definition unanswered :: "answers \<Rightarrow> input_field \<Rightarrow> bool" where
  "unanswered ans input = (case map_of ans (input_id input) of None \<Rightarrow> True | Some v \<Rightarrow> blank v)"

text \<open>The required inputs of a step that are unanswered.\<close>

definition missingInputs :: "node \<Rightarrow> answers \<Rightarrow> input_field list" where
  "missingInputs cur ans =
     (let requiredInputs =
            (case data_field inputs cur of None \<Rightarrow> [] | Some ins \<Rightarrow> filter required ins)
      in filter (unanswered ans) requiredInputs)"

text \<open>
  The property names every object inherits from \<open>Object.prototype\<close>. For such a key
  that is not an own property of \<open>answers\<close>, \<open>answers[key]\<close> is a function (for
  \<open>__proto__\<close> the prototype object), which has no \<open>trim\<close>: the optional chain does
  not stop and the call throws a TypeError.
\<close>

definition object_prototype_keys :: "string list" where
  "object_prototype_keys =
     [''constructor'', ''__defineGetter__'', ''__defineSetter__'', ''hasOwnProperty'',
      ''__lookupGetter__'', ''__lookupSetter__'', ''isPrototypeOf'', ''propertyIsEnumerable'',
      ''toString'', ''valueOf'', ''__proto__'', ''toLocaleString'']"

definition trim_throws :: "answers \<Rightarrow> input_field \<Rightarrow> bool" where
  "trim_throws ans input =
     (map_of ans (input_id input) = None \<and> input_id input \<in> set object_prototype_keys)"

text \<open>The filter over the required inputs throws at the first such input.\<close>

definition validation_throws :: "node \<Rightarrow> answers \<Rightarrow> bool" where
  "validation_throws cur ans =
     list_ex (trim_throws ans)
       (case data_field inputs cur of None \<Rightarrow> [] | Some ins \<Rightarrow> filter required ins)"

definition completion_step :: node where
  "completion_step =
     \<lparr>node_id = None,
      data = Some \<lparr>slug = None, step_type = Some ''completion'', title = Some ''Thank you!'',
        content = Some ''You have successfully completed this guided flow. If you need further assistance, please contact support.'',
        visibility = None, inputs = None, escalationEnabled = False,
        escalationCategory = None\<rparr>\<rparr>"

definition cw_complete_failed :: "effect list" where
  "cw_complete_failed =
     [Console_error ''Failed to complete session:'', Toast_error ''Failed to complete session'']"

text \<open>\<open>completeSession\<close> has its own try/catch: nothing escapes it.\<close>

definition cw_completeSession :: "sink \<Rightarrow> widget_state \<Rightarrow> widget_state \<times> effect list" where
  "cw_completeSession snk s =
     (case cw_session s of
        None \<Rightarrow> (s, cw_complete_failed)
      | Some sess \<Rightarrow>
          let complete = Post_complete (session_id sess);
              ev = session_completed sess (cw_stepIndex s + 1) (Some ''customer_completed'')
          in if \<not> snk complete then (s, Request complete # cw_complete_failed)
             else if \<not> snk ev then (s, Request complete # Request ev # cw_complete_failed)
             else (s\<lparr>cw_currentStep := Some completion_step\<rparr>, [Request complete, Request ev]))"

definition cw_step_failed :: "effect list" where
  "cw_step_failed =
     [Console_error ''Failed to complete step:'', Toast_error ''Failed to complete step'']"

definition cw_handleStepComplete :: "sink \<Rightarrow> widget_state \<Rightarrow> widget_state \<times> effect list" where
  "cw_handleStepComplete snk s =
     (case cw_currentStep s of
        None \<Rightarrow> (s, cw_step_failed)
      | Some cur \<Rightarrow>
          if validation_throws cur (cw_answers s) then (s, cw_step_failed)
          else if length (missingInputs cur (cw_answers s)) > 0
          then (s, [Toast_error ''Please fill in all required fields''])
          else (case cw_session s of
             None \<Rightarrow> (s, cw_step_failed)
           | Some sess \<Rightarrow>
               let ev = step_completed sess cur (cw_answers s)
               in if \<not> snk ev then (s, Request ev # cw_step_failed)
                  else (case cw_nodes s of
                     None \<Rightarrow> (s, Request ev # cw_step_failed)
                   | Some all_nodes \<Rightarrow>
                       let nextIndex = cw_stepIndex s + 1;
                           nodes = filter (\<lambda>n. \<not> agent_only n) all_nodes
                       in if nextIndex < length nodes
                          then (s\<lparr>cw_stepIndex := nextIndex,
                                   cw_currentStep := at_index nodes nextIndex,
                                   cw_answers := []\<rparr>, [Request ev])
                          else (let (s', effs) = cw_completeSession snk s
                                in (s', Request ev # effs)))))"

text \<open>The header's "Step N of M": \<open>stepIndex + 1\<close> of the filtered node count.\<close>

definition cw_step_of :: "widget_state \<Rightarrow> (nat \<times> nat) option" where
  "cw_step_of s =
     (case cw_nodes s of
        None \<Rightarrow> None
      | Some all_nodes \<Rightarrow> Some (cw_stepIndex s + 1, length (filter (\<lambda>n. \<not> agent_only n) all_nodes)))"

definition cw_escalation_failed :: "effect list" where
  "cw_escalation_failed =
     [Console_error ''Failed to escalate:'', Toast_error ''Failed to submit escalation'']"

text \<open>
  The record \<open>handleEscalation\<close> builds; \<open>None\<close> is the TypeError of reading a field of
  a null \<open>session\<close>, \<open>guide\<close>, \<open>currentStep\<close> or \<open>version\<close>.
\<close>

definition cw_escalationData :: "widget_state \<Rightarrow> customer_escalation option" where
  "cw_escalationData s =
     (case cw_session s of None \<Rightarrow> None | Some sess \<Rightarrow>
      case cw_guide s of None \<Rightarrow> None | Some g \<Rightarrow>
      case cw_currentStep s of None \<Rightarrow> None | Some cur \<Rightarrow>
      case cw_nodes s of None \<Rightarrow> None | Some all_nodes \<Rightarrow>
        Some \<lparr>ce_session_id = session_id sess,
              ce_guide_id = guide_id g,
              ce_step_id = node_id cur,
              ce_category = category_of cur,
              ce_message = cw_escalationMessage s,
              ce_history_snapshot =
                map (\<lambda>n. \<lparr>snap_step = data_field title n, snap_answers = cw_answers s\<rparr>)
                  (take (cw_stepIndex s + 1) all_nodes),
              ce_contact = cw_customerInfo s\<rparr>)"

definition cw_handleEscalation :: "sink \<Rightarrow> widget_state \<Rightarrow> widget_state \<times> effect list" where
  "cw_handleEscalation snk s =
     (if blank (cw_escalationMessage s) then (s, [Toast_error ''Please describe your issue''])
      else (case cw_escalationData s of
         None \<Rightarrow> (s, cw_escalation_failed)
       | Some escalationData \<Rightarrow>
           let post = Post_escalation escalationData;
               ev = escalation_submitted escalationData
           in if \<not> snk post then (s, Request post # cw_escalation_failed)
              else if \<not> snk ev then (s, Request post # Request ev # cw_escalation_failed)
              else (s\<lparr>cw_showEscalation := False, cw_escalationMessage := []\<rparr>,
                    [Request post, Request ev,
                     Toast_success ''Your issue has been escalated to our support team. They will contact you soon.''])))"

subsection \<open>Loading a guide\<close>

text \<open>
  The start index \<open>loadGuideAndStartSession\<close> computes from the route's \<open>stepSlug\<close>: the
  position found by \<open>findIndex\<close> over \<open>versionData.graph.nodes\<close>, or 0.
\<close>

definition resolveStepIndex :: "node list \<Rightarrow> string option \<Rightarrow> nat" where
  "resolveStepIndex nodes stepSlug =
     (if truthy stepSlug
      then (let targetStepIndex =
                  findIndex (\<lambda>n. data_field slug n = stepSlug \<or> node_id n = stepSlug) nodes
            in if targetStepIndex = -1 then 0 else nat targetStepIndex)
      else 0)"

definition cw_load_failed :: "effect list" where
  "cw_load_failed = [Console_error ''Failed to load guide:'', Toast_error ''Failed to load guide'']"

text \<open>
  The three awaited responses are parameters, \<open>None\<close> for a rejected call. The
  \<open>finally\<close> block clears \<open>loading\<close> on every path.
\<close>

definition loadGuideAndStartSession ::
  "string \<Rightarrow> string option \<Rightarrow> guide list option \<Rightarrow> version option \<Rightarrow> session option
     \<Rightarrow> widget_state \<Rightarrow> widget_state \<times> effect list" where
  "loadGuideAndStartSession guideSlug stepSlug guidesResponse versionResponse sessionResponse s =
     (case guidesResponse of
        None \<Rightarrow> (s\<lparr>cw_loading := False\<rparr>, Request Get_guides # cw_load_failed)
      | Some guides_data \<Rightarrow>
          let guides = filter (\<lambda>g. truthy (current_version_id g)) guides_data
          in (case find (\<lambda>g. guide_slug g = guideSlug) guides of
                None \<Rightarrow> (s\<lparr>cw_loading := False\<rparr>, [Request Get_guides, Toast_error ''Guide not found''])
              | Some targetGuide \<Rightarrow>
                  let vid = (case current_version_id targetGuide of None \<Rightarrow> [] | Some v \<Rightarrow> v);
                      get_version = Request (Get_version (guide_id targetGuide) vid);
                      post_session = Request (Post_session ''customer'' vid);
                      s1 = s\<lparr>cw_guide := Some targetGuide\<rparr>
                  in (case versionResponse of
                        None \<Rightarrow> (s1\<lparr>cw_loading := False\<rparr>,
                                 Request Get_guides # get_version # cw_load_failed)
                      | Some versionData \<Rightarrow>
                          let s2 = s1\<lparr>cw_version := Some versionData\<rparr>
                          in (case sessionResponse of
                                None \<Rightarrow> (s2\<lparr>cw_loading := False\<rparr>,
                                   Request Get_guides # get_version # post_session # cw_load_failed)
                              | Some sess \<Rightarrow>
                                  let s3 = s2\<lparr>cw_session := Some sess\<rparr>;
                                      nodes = (case graph_nodes versionData of None \<Rightarrow> [] | Some ns \<Rightarrow> ns);
                                      s4 = (if length nodes > 0
                                            then (let targetStepIndex = resolveStepIndex nodes stepSlug
                                                  in s3\<lparr>cw_stepIndex := targetStepIndex,
                                                        cw_currentStep := at_index nodes targetStepIndex\<rparr>)
                                            else s3)
                                  in (s4\<lparr>cw_loading := False\<rparr>,
                                      [Request Get_guides, get_version, post_session])))))"

section \<open>The agent portal\<close>

record portal_state =
  ap_user :: "user option"
  ap_guides :: "guide list"
  ap_currentGuide :: "guide option"
  ap_currentVersion :: "version option"
  ap_session :: "session option"
  ap_currentStep :: "node option"
  ap_stepIndex :: nat
  ap_answers :: answers
  ap_crmData :: crm_data
  ap_loading :: bool

definition ap_nodes :: "portal_state \<Rightarrow> node list option" where
  "ap_nodes s = (case ap_currentVersion s of None \<Rightarrow> None | Some v \<Rightarrow> graph_nodes v)"

text \<open>
  \<open>createSession\<close> reads \<open>currentVersion\<close> of the render it was created in and always
  starts at the first node.
\<close>

definition createSession :: "string \<Rightarrow> session option \<Rightarrow> portal_state \<Rightarrow> portal_state \<times> effect list" where
  "createSession versionId sessionResponse s =
     (let post_session = Request (Post_session ''agent'' versionId)
      in case sessionResponse of
           None \<Rightarrow> (s, [post_session, Console_error ''Failed to create session:'',
                         Toast_error ''Failed to create session''])
         | Some sessionData \<Rightarrow>
             let s1 = s\<lparr>ap_session := Some sessionData\<rparr>;
                 nodes = (case ap_nodes s of None \<Rightarrow> [] | Some ns \<Rightarrow> ns)
             in (if length nodes > 0
                 then s1\<lparr>ap_currentStep := at_index nodes 0, ap_stepIndex := 0\<rparr>
                 else s1, [post_session]))"

definition ap_crm_failed :: "effect list" where
  "ap_crm_failed = [Console_error ''Failed to save CRM data:'', Toast_error ''Failed to save CRM data'']"

definition handleCrmSubmit :: "sink \<Rightarrow> portal_state \<Rightarrow> portal_state \<times> effect list" where
  "handleCrmSubmit snk s =
     (let crmData = ap_crmData s
      in if blank (crm_id crmData) then (s, [Toast_error ''CRM ID is required''])
         else (case ap_session s of
            None \<Rightarrow> (s, ap_crm_failed)
          | Some sess \<Rightarrow>
             (case ap_user s of
                None \<Rightarrow> (s, ap_crm_failed)
              | Some u \<Rightarrow>
                  let patch = Patch_crm_context (session_id sess) crmData (user_id u) (user_email u);
                      ev = crm_form_submitted sess crmData
                  in if \<not> snk patch then (s, Request patch # ap_crm_failed)
                     else if \<not> snk ev then (s, Request patch # Request ev # ap_crm_failed)
                     else (s, [Request patch, Request ev, Toast_success ''CRM information saved'']))))"

definition ap_handleInputChange :: "string \<Rightarrow> string \<Rightarrow> portal_state \<Rightarrow> portal_state" where
  "ap_handleInputChange inputId v s = s\<lparr>ap_answers := AList.update inputId v (ap_answers s)\<rparr>"

definition ap_complete_failed :: "effect list" where
  "ap_complete_failed =
     [Console_error ''Failed to complete session:'', Toast_error ''Failed to complete session'']"

text \<open>
  \<open>generateCrmNote\<close> runs inside \<open>completeSession\<close>'s try block: reading the title of a
  null guide or the email of a null user lands in its catch. The toast after the
  clipboard write waits for the clipboard's promise.
\<close>

definition generateCrmNote :: "sink \<Rightarrow> portal_state \<Rightarrow> effect list option" where
  "generateCrmNote snk s =
     (case ap_currentGuide s of None \<Rightarrow> None | Some g \<Rightarrow>
      case ap_user s of None \<Rightarrow> None | Some u \<Rightarrow>
      case ap_session s of None \<Rightarrow> None | Some sess \<Rightarrow>
        let w = Clipboard_write (guide_title g) (user_email u) (session_id sess)
                  (crm_id (ap_crmData s)) (ap_stepIndex s + 1) (ap_answers s)
        in Some (if snk w then [Request w, Toast_success ''CRM note copied to clipboard!'']
                 else [Request w]))"

definition ap_completeSession :: "sink \<Rightarrow> portal_state \<Rightarrow> portal_state \<times> effect list" where
  "ap_completeSession snk s =
     (case ap_session s of
        None \<Rightarrow> (s, ap_complete_failed)
      | Some sess \<Rightarrow>
          let complete = Post_complete (session_id sess);
              ev = session_completed sess (ap_stepIndex s + 1) None
          in if \<not> snk complete then (s, Request complete # ap_complete_failed)
             else if \<not> snk ev then (s, Request complete # Request ev # ap_complete_failed)
             else (case generateCrmNote snk s of
                     None \<Rightarrow> (s, [Request complete, Request ev,
                                   Toast_success ''Session completed successfully!''] @ ap_complete_failed)
                   | Some note \<Rightarrow> (s, [Request complete, Request ev,
                                   Toast_success ''Session completed successfully!''] @ note)))"

definition ap_step_failed :: "effect list" where
  "ap_step_failed =
     [Console_error ''Failed to complete step:'', Toast_error ''Failed to complete step'']"

definition ap_handleStepComplete :: "sink \<Rightarrow> portal_state \<Rightarrow> portal_state \<times> effect list" where
  "ap_handleStepComplete snk s =
     (case ap_session s of
        None \<Rightarrow> (s, ap_step_failed)
      | Some sess \<Rightarrow>
         (case ap_currentStep s of
            None \<Rightarrow> (s, ap_step_failed)
          | Some cur \<Rightarrow>
              let ev = step_completed sess cur (ap_answers s)
              in if \<not> snk ev then (s, Request ev # ap_step_failed)
                 else (case ap_nodes s of
                    None \<Rightarrow> (s, Request ev # ap_step_failed)
                  | Some nodes \<Rightarrow>
                      let nextIndex = ap_stepIndex s + 1
                      in if nextIndex < length nodes
                         then (s\<lparr>ap_stepIndex := nextIndex,
                                  ap_currentStep := at_index nodes nextIndex,
                                  ap_answers := []\<rparr>, [Request ev])
                         else (let (s', effs) = ap_completeSession snk s
                               in (s', Request ev # effs)))))"

text \<open>
  The navigation button of the step card. The card is rendered when there is a current
  step and a CRM id; below the last index the button runs \<open>handleStepComplete\<close>, at the
  last index it runs \<open>completeSession\<close>. \<open>None\<close>: no button to click.
\<close>

definition ap_node_count :: "portal_state \<Rightarrow> nat" where
  "ap_node_count s = (case ap_nodes s of None \<Rightarrow> 0 | Some ns \<Rightarrow> length ns)"

definition ap_navigation_click :: "sink \<Rightarrow> portal_state \<Rightarrow> (portal_state \<times> effect list) option" where
  "ap_navigation_click snk s =
     (if ap_currentStep s \<noteq> None \<and> crm_id (ap_crmData s) \<noteq> []
      then Some (if int (ap_stepIndex s) < int (ap_node_count s) - 1
                 then ap_handleStepComplete snk s
                 else ap_completeSession snk s)
      else None)"

text \<open>The card's "Step N of M".\<close>

definition ap_step_of :: "portal_state \<Rightarrow> nat \<times> nat" where
  "ap_step_of s = (ap_stepIndex s + 1, ap_node_count s)"

definition ap_escalation_failed :: "effect list" where
  "ap_escalation_failed =
     [Console_error ''Failed to escalate:'', Toast_error ''Failed to submit escalation'']"

definition ap_escalationData :: "portal_state \<Rightarrow> agent_escalation option" where
  "ap_escalationData s =
     (case ap_session s of None \<Rightarrow> None | Some sess \<Rightarrow>
      case ap_currentGuide s of None \<Rightarrow> None | Some g \<Rightarrow>
      case ap_currentStep s of None \<Rightarrow> None | Some cur \<Rightarrow>
      case ap_nodes s of None \<Rightarrow> None | Some nodes \<Rightarrow>
      case ap_user s of None \<Rightarrow> None | Some u \<Rightarrow>
        Some \<lparr>ae_session_id = session_id sess,
              ae_guide_id = guide_id g,
              ae_step_id = node_id cur,
              ae_category = category_of cur,
              ae_message = ''Agent escalation from step: '' @
                 (case data_field title cur of None \<Rightarrow> ''undefined'' | Some t \<Rightarrow> t),
              ae_history_snapshot = take (ap_stepIndex s + 1) nodes,
              ae_contact_agent_email = user_email u,
              ae_contact_crm_id = crm_id (ap_crmData s)\<rparr>)"

definition ap_handleEscalation :: "sink \<Rightarrow> portal_state \<Rightarrow> portal_state \<times> effect list" where
  "ap_handleEscalation snk s =
     (case ap_escalationData s of
        None \<Rightarrow> (s, ap_escalation_failed)
      | Some escalationData \<Rightarrow>
          let post = Post_agent_escalation escalationData
          in if \<not> snk post then (s, Request post # ap_escalation_failed)
             else (s, [Request post, Toast_success ''Escalation submitted successfully'']))"

section \<open>The authentication context\<close>

text \<open>\<open>stored_token\<close> is the \<open>token\<close> entry of localStorage, \<open>token\<close> the React state.\<close>

record auth_state =
  auth_user :: "user option"
  token :: "string option"
  stored_token :: "string option"
  auth_loading :: bool

text \<open>A rejected axios call: \<open>error.response?.status\<close> and \<open>error.response?.data?.detail\<close>.\<close>

record api_error =
  err_status :: "nat option"
  err_detail :: "string option"

datatype 'a response = Resolved 'a | Rejected api_error

definition logout :: "auth_state \<Rightarrow> auth_state \<times> effect list" where
  "logout s =
     (s\<lparr>stored_token := None, token := None, auth_user := None\<rparr>,
      [Toast_success ''Logged out successfully''])"

text \<open>The error handler of the response interceptor; it rejects again with the same error.\<close>

definition responseInterceptor :: "api_error \<Rightarrow> auth_state \<Rightarrow> auth_state \<times> effect list" where
  "responseInterceptor error s =
     (if err_status error = Some 401
      then (let (s', effs) = logout s
            in (s', effs @ [Toast_error ''Session expired. Please login again.'']))
      else (s, []))"

text \<open>\<open>error.response?.data?.detail || fallback\<close>.\<close>

definition detail_or :: "api_error \<Rightarrow> string \<Rightarrow> string" where
  "detail_or error fallback =
     (case err_detail error of None \<Rightarrow> fallback | Some d \<Rightarrow> if d = [] then fallback else d)"

text \<open>
  axios composes the handler chain of a request at the moment the request is made, from
  the handlers registered in \<open>axios.interceptors\<close> at that moment. \<open>AuthProvider\<close>
  registers its response handler in an effect, so a call is parameterised by whether the
  handler was registered when the call was made. \<open>rejected\<close> is what a rejected call does
  to the context before the caller's own catch block runs.
\<close>

definition rejected :: "bool \<Rightarrow> api_error \<Rightarrow> auth_state \<Rightarrow> auth_state \<times> effect list" where
  "rejected registered error s = (if registered then responseInterceptor error s else (s, []))"

text \<open>
  The operations of the context. Each awaits one axios call, whose response is a
  parameter. The third component is the operation's return value.
\<close>

definition login ::
  "bool \<Rightarrow> (string \<times> user) response \<Rightarrow> auth_state \<Rightarrow> auth_state \<times> effect list \<times> bool" where
  "login registered resp s =
     (case resp of
        Resolved (access_token, userData) \<Rightarrow>
          (s\<lparr>stored_token := Some access_token, token := Some access_token,
             auth_user := Some userData\<rparr>,
           [Toast_success (''Welcome back, '' @ user_email userData @ ''!'')], True)
      | Rejected error \<Rightarrow>
          let (s', effs) = rejected registered error s
          in (s', effs @ [Toast_error (detail_or error ''Login failed'')], False))"

definition register ::
  "bool \<Rightarrow> unit response \<Rightarrow> auth_state \<Rightarrow> auth_state \<times> effect list \<times> bool" where
  "register registered resp s =
     (case resp of
        Resolved _ \<Rightarrow> (s, [Toast_success ''Account created successfully! Please login.''], True)
      | Rejected error \<Rightarrow>
          let (s', effs) = rejected registered error s
          in (s', effs @ [Toast_error (detail_or error ''Registration failed'')], False))"

definition loadUser :: "bool \<Rightarrow> user response \<Rightarrow> auth_state \<Rightarrow> auth_state \<times> effect list" where
  "loadUser registered resp s =
     (if truthy (token s)
      then (case resp of
              Resolved u \<Rightarrow> (s\<lparr>auth_user := Some u, auth_loading := False\<rparr>, [])
            | Rejected error \<Rightarrow>
                let (s', effs) = rejected registered error s
                in (s'\<lparr>stored_token := None, token := None, auth_loading := False\<rparr>,
                    effs @ [Console_error ''Failed to load user:'']))
      else (s\<lparr>auth_loading := False\<rparr>, []))"

text \<open>
  Any other call of the application (the pages' own requests): its catch block does not
  touch the authentication state, the registered handler does.
\<close>

definition api_call :: "bool \<Rightarrow> 'a response \<Rightarrow> auth_state \<Rightarrow> auth_state \<times> effect list" where
  "api_call registered resp s =
     (case resp of Resolved _ \<Rightarrow> (s, []) | Rejected error \<Rightarrow> rejected registered error s)"

subsection \<open>Mounting the application\<close>

text \<open>
  The provider's state and the registry of axios. \<open>useState\<close> starts with no user,
  \<open>loading\<close> set and the token read from localStorage; no handler is registered yet.
\<close>

record client =
  client_auth :: auth_state
  response_handler :: bool

definition AuthProvider_initial :: "string option \<Rightarrow> client" where
  "AuthProvider_initial stored =
     \<lparr>client_auth = \<lparr>auth_user = None, token = stored, stored_token = stored,
                      auth_loading = True\<rparr>,
      response_handler = False\<rparr>"

text \<open>The provider's first effect: \<open>axios.interceptors.response.use(...)\<close>.\<close>

definition configure_interceptors :: "client \<Rightarrow> client" where
  "configure_interceptors c = c\<lparr>response_handler := True\<rparr>"

text \<open>
  The first commit on the public route \<open>/widget/:guideSlug\<close>, where \<open>CustomerWidget\<close> is
  rendered inside \<open>AuthProvider\<close> with no loading gate in between. React runs the mount
  effects of a child before those of its ancestors: the widget's effect makes its
  \<open>GET /api/guides\<close> first, then the provider's effects run in source order, registering
  the handlers and loading the user. The two responses arrive after the commit; the
  widget's response meets the chain its request was made with.
\<close>

definition mount_widget_route ::
  "guide list response \<Rightarrow> user response \<Rightarrow> client \<Rightarrow> client \<times> effect list" where
  "mount_widget_route guidesResponse userResponse c =
     (let guides_chain = response_handler c;
          c1 = configure_interceptors c;
          (a2, effs2) = loadUser (response_handler c1) userResponse (client_auth c1);
          (a3, effs3) = api_call guides_chain guidesResponse a2
      in (c1\<lparr>client_auth := a3\<rparr>, effs2 @ effs3))"

text \<open>
  A page behind \<open>ProtectedRoute\<close> is mounted only after \<open>loading\<close> is cleared, in a later
  commit: its requests are made with the handler registered.
\<close>

definition protected_page_call :: "'a response \<Rightarrow> client \<Rightarrow> client \<times> effect list" where
  "protected_page_call resp c =
     (let (a, effs) = api_call (response_handler c) resp (client_auth c)
      in (c\<lparr>client_auth := a\<rparr>, effs))"

datatype role_arg = Role string | Roles "string list"

definition hasRole :: "role_arg \<Rightarrow> auth_state \<Rightarrow> bool" where
  "hasRole r s =
     (case auth_user s of
        None \<Rightarrow> False
      | Some u \<Rightarrow> (case r of Roles rs \<Rightarrow> user_role u \<in> set rs | Role x \<Rightarrow> user_role u = x))"

definition isAdmin :: "auth_state \<Rightarrow> bool" where
  "isAdmin s = hasRole (Role ''admin'') s"

definition isAgent :: "auth_state \<Rightarrow> bool" where
  "isAgent s = hasRole (Roles [''agent'', ''admin'']) s"

definition isCustomer :: "auth_state \<Rightarrow> bool" where
  "isCustomer s = hasRole (Role ''customer'') s"

text \<open>Logged out: no token in localStorage or in the state, and no current user.\<close>

definition logged_out :: "auth_state \<Rightarrow> bool" where
  "logged_out s = (stored_token s = None \<and> token s = None \<and> auth_user s = None)"

section \<open>Transitions of a running session\<close>

text \<open>
  What the user can do to a loaded session: the handlers above and the inline
  \<open>onChange\<close>/\<open>onClick\<close> setters of the escalation modal and the CRM form.
\<close>

inductive cw_transition :: "widget_state \<Rightarrow> widget_state \<Rightarrow> bool" where
  cw_input: "cw_transition s (cw_handleInputChange inputId v s)"
| cw_advance: "cw_transition s (fst (cw_handleStepComplete snk s))"
| cw_escalate: "cw_transition s (fst (cw_handleEscalation snk s))"
| cw_show: "cw_transition s (s\<lparr>cw_showEscalation := b\<rparr>)"
| cw_message: "cw_transition s (s\<lparr>cw_escalationMessage := m\<rparr>)"
| cw_contact: "cw_transition s (s\<lparr>cw_customerInfo := c\<rparr>)"

inductive ap_transition :: "portal_state \<Rightarrow> portal_state \<Rightarrow> bool" where
  ap_input: "ap_transition s (ap_handleInputChange inputId v s)"
| ap_advance: "ap_transition s (fst (ap_handleStepComplete snk s))"
| ap_complete: "ap_transition s (fst (ap_completeSession snk s))"
| ap_escalate: "ap_transition s (fst (ap_handleEscalation snk s))"
| ap_crm_submit: "ap_transition s (fst (handleCrmSubmit snk s))"
| ap_crm_change: "ap_transition s (s\<lparr>ap_crmData := c\<rparr>)"

section \<open>Reading an effect list\<close>

definition requests :: "effect list \<Rightarrow> request list" where
  "requests effs = concat (map (\<lambda>e. case e of Request r \<Rightarrow> [r] | _ \<Rightarrow> []) effs)"

definition error_toasts :: "effect list \<Rightarrow> string list" where
  "error_toasts effs = concat (map (\<lambda>e. case e of Toast_error m \<Rightarrow> [m] | _ \<Rightarrow> []) effs)"

text \<open>The events with a given action tag among the requests issued.\<close>

definition events_with :: "string \<Rightarrow> effect list \<Rightarrow> event list" where
  "events_with a effs =
     concat (map (\<lambda>r. case r of Post_event e \<Rightarrow> (if ev_action e = a then [e] else []) | _ \<Rightarrow> [])
       (requests effs))"

section \<open>Example sessions\<close>

definition accept :: sink where
  "accept r = True"

definition reject :: sink where
  "reject r = False"

definition admin_state :: auth_state where
  "admin_state =
     \<lparr>auth_user = Some \<lparr>user_id = ''u1'', user_email = ''root@example.com'', user_role = ''admin''\<rparr>,
      token = Some ''t0'', stored_token = Some ''t0'', auth_loading = False\<rparr>"

definition anonymous_state :: auth_state where
  "anonymous_state = \<lparr>auth_user = None, token = None, stored_token = None, auth_loading = False\<rparr>"

definition unauthorized :: api_error where
  "unauthorized = \<lparr>err_status = Some 401, err_detail = Some ''Not authenticated''\<rparr>"

definition agent_user :: user where
  "agent_user = \<lparr>user_id = ''u2'', user_email = ''agent@example.com'', user_role = ''agent''\<rparr>"

definition blank_crm :: crm_data where
  "blank_crm = \<lparr>crm_id = ''  '', crm_email = [], account_id = [], ticket_id = []\<rparr>"

definition portal_idle :: portal_state where
  "portal_idle =
     \<lparr>ap_user = Some agent_user, ap_guides = [], ap_currentGuide = None,
      ap_currentVersion = None, ap_session = Some \<lparr>session_id = ''s1''\<rparr>,
      ap_currentStep = None, ap_stepIndex = 0, ap_answers = [],
      ap_crmData = blank_crm, ap_loading = False\<rparr>"

text \<open>A graph with one agent-only step and one customer step.\<close>

definition plain_data :: step_data where
  "plain_data =
     \<lparr>slug = None, step_type = Some ''instruction'', title = None, content = None,
      visibility = Some ''customer'', inputs = None, escalationEnabled = True,
      escalationCategory = None\<rparr>"

definition internal_step :: node where
  "internal_step =
     \<lparr>node_id = Some ''n1'',
      data = Some (plain_data\<lparr>title := Some ''Internal check'', visibility := Some ''agent''\<rparr>)\<rparr>"

definition public_step :: node where
  "public_step =
     \<lparr>node_id = Some ''n2'', data = Some (plain_data\<lparr>title := Some ''Restart the router''\<rparr>)\<rparr>"

definition mixed_graph :: "node list" where
  "mixed_graph = [internal_step, public_step]"

definition some_guide :: guide where
  "some_guide =
     \<lparr>guide_id = ''g1'', guide_slug = ''router'', guide_title = ''Router help'',
      current_version_id = Some ''v1''\<rparr>"

definition no_contact :: customer_info where
  "no_contact = \<lparr>ci_email = [], ci_phone = []\<rparr>"

definition mixed_widget :: widget_state where
  "mixed_widget =
     \<lparr>cw_guide = Some some_guide, cw_version = Some \<lparr>graph_nodes = Some mixed_graph\<rparr>,
      cw_session = Some \<lparr>session_id = ''s1''\<rparr>, cw_currentStep = Some public_step,
      cw_stepIndex = 0, cw_answers = [], cw_customerInfo = no_contact,
      cw_showEscalation = False, cw_escalationMessage = [], cw_loading = False\<rparr>"

definition mixed_portal :: portal_state where
  "mixed_portal =
     \<lparr>ap_user = Some agent_user, ap_guides = [some_guide], ap_currentGuide = Some some_guide,
      ap_currentVersion = Some \<lparr>graph_nodes = Some mixed_graph\<rparr>,
      ap_session = Some \<lparr>session_id = ''s2''\<rparr>, ap_currentStep = Some internal_step,
      ap_stepIndex = 0, ap_answers = [],
      ap_crmData = \<lparr>crm_id = ''C-17'', crm_email = [], account_id = [], ticket_id = []\<rparr>,
      ap_loading = False\<rparr>"

text \<open>
  The two-step scenario: an instruction \<open>a\<close> followed by a question \<open>b\<close> with the
  required input \<open>q1\<close>, run by a customer.
\<close>

definition step_a :: node where
  "step_a = \<lparr>node_id = Some ''a'', data = Some (plain_data\<lparr>title := Some ''Welcome''\<rparr>)\<rparr>"

definition step_b :: node where
  "step_b =
     \<lparr>node_id = Some ''b'',
      data = Some (plain_data\<lparr>step_type := Some ''question'', title := Some ''Your model'',
        inputs := Some [\<lparr>input_id = ''q1'', input_type = ''text'', input_label = ''Model'',
                          required = True\<rparr>]\<rparr>)\<rparr>"

definition scenario_graph :: "node list" where
  "scenario_graph = [step_a, step_b]"

definition scenario_session :: session where
  "scenario_session = \<lparr>session_id = ''s1''\<rparr>"

definition scenario_widget :: widget_state where
  "scenario_widget =
     \<lparr>cw_guide = Some some_guide, cw_version = Some \<lparr>graph_nodes = Some scenario_graph\<rparr>,
      cw_session = Some scenario_session, cw_currentStep = Some step_a,
      cw_stepIndex = 0, cw_answers = [], cw_customerInfo = no_contact,
      cw_showEscalation = False, cw_escalationMessage = [], cw_loading = False\<rparr>"

text \<open>The same session at its last step, the required answer given.\<close>

definition answered_widget :: widget_state where
  "answered_widget =
     scenario_widget\<lparr>cw_currentStep := Some step_b, cw_stepIndex := 1,
       cw_answers := [(''q1'', ''yes'')]\<rparr>"

text \<open>A backend whose session-completion endpoint is down.\<close>

definition reject_completion :: sink where
  "reject_completion r = (case r of Post_complete _ \<Rightarrow> False | _ \<Rightarrow> True)"

text \<open>The customer of the scenario has typed a message into the escalation modal.\<close>

definition help_widget :: widget_state where
  "help_widget = scenario_widget\<lparr>cw_showEscalation := True, cw_escalationMessage := ''help''\<rparr>"

definition help_record :: customer_escalation where
  "help_record =
     \<lparr>ce_session_id = ''s1'', ce_guide_id = ''g1'', ce_step_id = Some ''a'',
      ce_category = ''general'', ce_message = ''help'',
      ce_history_snapshot = [\<lparr>snap_step = Some ''Welcome'', snap_answers = []\<rparr>],
      ce_contact = no_contact\<rparr>"

text \<open>
  A session on the graph \<open>[b, a]\<close>: the customer answers \<open>q1\<close> at \<open>b\<close>, moves on to \<open>a\<close>
  and asks for help there.
\<close>

definition reversed_widget :: widget_state where
  "reversed_widget =
     scenario_widget\<lparr>cw_version := Some \<lparr>graph_nodes = Some [step_b, step_a]\<rparr>,
       cw_currentStep := Some step_b\<rparr>"


definition scenario_portal :: portal_state where
  "scenario_portal =
     \<lparr>ap_user = Some agent_user, ap_guides = [some_guide], ap_currentGuide = Some some_guide,
      ap_currentVersion = Some \<lparr>graph_nodes = Some scenario_graph\<rparr>,
      ap_session = Some scenario_session, ap_currentStep = Some step_a,
      ap_stepIndex = 0, ap_answers = [],
      ap_crmData = \<lparr>crm_id = ''C-17'', crm_email = [], account_id = [], ticket_id = []\<rparr>,
      ap_loading = False\<rparr>"


text \<open>The agent on the graph \<open>[b, a]\<close>, at \<open>b\<close>, and at the last step of the scenario.\<close>

definition reversed_portal :: portal_state where
  "reversed_portal =
     scenario_portal\<lparr>ap_currentVersion := Some \<lparr>graph_nodes = Some [step_b, step_a]\<rparr>,
       ap_currentStep := Some step_b\<rparr>"

definition last_portal :: portal_state where
  "last_portal =
     scenario_portal\<lparr>ap_currentStep := Some step_b, ap_stepIndex := 1,
       ap_answers := [(''q1'', ''yes'')]\<rparr>"

text \<open>The widget before \<open>loadGuideAndStartSession\<close> has run.\<close>

definition initial_widget :: widget_state where
  "initial_widget =
     \<lparr>cw_guide = None, cw_version = None, cw_session = None, cw_currentStep = None,
      cw_stepIndex = 0, cw_answers = [], cw_customerInfo = no_contact,
      cw_showEscalation = False, cw_escalationMessage = [], cw_loading = True\<rparr>"

definition filled_portal :: portal_state where
  "filled_portal =
     portal_idle\<lparr>ap_crmData := \<lparr>crm_id = ''C-17'', crm_email = [], account_id = [], ticket_id = []\<rparr>\<rparr>"

section \<open>Verified properties\<close>

subsection \<open>Trimming\<close>

lemma blank_iff: "blank s = (\<forall>c \<in> set s. is_space c)"
proof -
  have "(\<forall>x \<in> set (dropWhile is_space s). is_space x) = (\<forall>c \<in> set s. is_space c)"
    by (induction s) auto
  then show ?thesis
    by (simp add: blank_def trim_def dropWhile_eq_Nil_conv)
qed

subsection \<open>Role checks\<close>

text \<open>
  C8. \<open>isAgent\<close> holds exactly for a logged-in user whose role is agent or admin, so an
  admin passes every agent check; \<open>isAdmin\<close> holds exactly for a logged-in user whose
  role is admin; with no user logged in every role check is false.
\<close>

theorem role_checks:
  "isAgent s = (\<exists>u. auth_user s = Some u \<and> (user_role u = ''agent'' \<or> user_role u = ''admin''))
   \<and> isAdmin s = (\<exists>u. auth_user s = Some u \<and> user_role u = ''admin'')
   \<and> (isAdmin s \<longrightarrow> isAgent s)
   \<and> (auth_user s = None \<longrightarrow>
        \<not> hasRole r s \<and> \<not> isAdmin s \<and> \<not> isAgent s \<and> \<not> isCustomer s)"
  by (auto simp: isAgent_def isAdmin_def isCustomer_def hasRole_def
      split: option.splits role_arg.splits)

theorem role_checks_witness:
  "isAdmin admin_state \<and> isAgent admin_state \<and> auth_user anonymous_state = None
   \<and> \<not> hasRole (Roles [''agent'', ''admin'']) anonymous_state \<and> \<not> isAgent anonymous_state"
  using role_checks [of admin_state] role_checks [of anonymous_state "Roles [''agent'', ''admin'']"]
  by (simp add: admin_state_def anonymous_state_def)

subsection \<open>Unauthorized responses\<close>

lemma registered_401_logs_out:
  assumes "err_status error = Some 401"
  shows "logged_out (fst (responseInterceptor error s))"
    and "logged_out (fst (api_call True (Rejected error) s))"
    and "logged_out (fst (login True (Rejected error) s))"
    and "logged_out (fst (register True (Rejected error) s))"
    and "truthy (token s) \<Longrightarrow> logged_out (fst (loadUser True (Rejected error) s))"
  using assms
  by (simp_all add: responseInterceptor_def rejected_def logout_def logged_out_def api_call_def
      login_def register_def loadUser_def)

lemma unregistered_call_keeps_state: "fst (api_call False resp s) = s"
  by (simp add: api_call_def rejected_def split: response.splits)

text \<open>
  C9 at a failing input. A browser holding the token \<open>t0\<close> opens the widget route. The
  widget's \<open>GET /api/guides\<close>, made before the provider registered its handler, is
  answered with status 401, and the user load succeeds: after both responses the token is
  still in localStorage and in the state and the user is set. The same response to a
  request of a protected page, made after the registration, logs the client out.
\<close>

theorem widget_mount_401_keeps_token:
  "mount_widget_route (Rejected unauthorized) (Resolved agent_user) (AuthProvider_initial (Some ''t0''))
     = (\<lparr>client_auth = \<lparr>auth_user = Some agent_user, token = Some ''t0'',
                         stored_token = Some ''t0'', auth_loading = False\<rparr>,
         response_handler = True\<rparr>, [])
   \<and> \<not> logged_out (client_auth (fst (mount_widget_route (Rejected unauthorized)
          (Resolved agent_user) (AuthProvider_initial (Some ''t0'')))))
   \<and> logged_out (client_auth (fst (protected_page_call (Rejected unauthorized)
          (fst (mount_widget_route (Resolved []) (Resolved agent_user)
             (AuthProvider_initial (Some ''t0'')))))))"
proof -
  have m: "mount_widget_route resp (Resolved agent_user) (AuthProvider_initial (Some ''t0''))
     = (\<lparr>client_auth = \<lparr>auth_user = Some agent_user, token = Some ''t0'',
                         stored_token = Some ''t0'', auth_loading = False\<rparr>,
         response_handler = True\<rparr>, [])" for resp :: "guide list response"
    by (simp add: mount_widget_route_def AuthProvider_initial_def configure_interceptors_def
        loadUser_def truthy_def unregistered_call_keeps_state api_call_def rejected_def
        split: response.splits)
  have u: "err_status unauthorized = Some 401"
    by (simp add: unauthorized_def)
  show ?thesis
    by (simp add: m logged_out_def protected_page_call_def api_call_def rejected_def
        responseInterceptor_def logout_def u)
qed

subsection \<open>The CRM form\<close>

text \<open>
  C10. With a CRM id that is blank after trimming, \<open>handleCrmSubmit\<close> issues no request
  at all (only the error toast); a request among its effects implies a non-blank CRM id;
  the form state is never changed; with a non-blank id, a session, a user and an
  accepting backend, the patch and the \<open>crm_form_submitted\<close> event are sent, in this order.
\<close>

theorem crm_submit_guarded:
  "(blank (crm_id (ap_crmData s)) \<longrightarrow>
      handleCrmSubmit snk s = (s, [Toast_error ''CRM ID is required'']))
   \<and> (Request r \<in> set (snd (handleCrmSubmit snk s)) \<longrightarrow> \<not> blank (crm_id (ap_crmData s)))
   \<and> fst (handleCrmSubmit snk s) = s
   \<and> (\<not> blank (crm_id (ap_crmData s)) \<and> ap_session s = Some sess \<and> ap_user s = Some u
        \<and> snk (Patch_crm_context (session_id sess) (ap_crmData s) (user_id u) (user_email u))
        \<and> snk (crm_form_submitted sess (ap_crmData s)) \<longrightarrow>
      snd (handleCrmSubmit snk s) =
        [Request (Patch_crm_context (session_id sess) (ap_crmData s) (user_id u) (user_email u)),
         Request (crm_form_submitted sess (ap_crmData s)),
         Toast_success ''CRM information saved''])"
  by (auto simp: handleCrmSubmit_def Let_def split: option.splits)

theorem crm_submit_guarded_witness:
  "blank (crm_id (ap_crmData portal_idle))
   \<and> handleCrmSubmit accept portal_idle = (portal_idle, [Toast_error ''CRM ID is required''])
   \<and> \<not> blank (crm_id (ap_crmData filled_portal))
   \<and> ap_session filled_portal = Some \<lparr>session_id = ''s1''\<rparr>
   \<and> ap_user filled_portal = Some agent_user
   \<and> snd (handleCrmSubmit accept filled_portal) =
       [Request (Patch_crm_context ''s1'' (ap_crmData filled_portal) ''u2'' ''agent@example.com''),
        Request (crm_form_submitted \<lparr>session_id = ''s1''\<rparr> (ap_crmData filled_portal)),
        Toast_success ''CRM information saved'']
   \<and> Request (crm_form_submitted \<lparr>session_id = ''s1''\<rparr> (ap_crmData filled_portal))
       \<in> set (snd (handleCrmSubmit accept filled_portal))"
proof -
  have b: "blank (crm_id (ap_crmData portal_idle))"
    by (simp add: portal_idle_def blank_crm_def blank_def trim_def is_space_def)
  have f: "ap_session filled_portal = Some \<lparr>session_id = ''s1''\<rparr>"
    "ap_user filled_portal = Some agent_user"
    "crm_id (ap_crmData filled_portal) = ''C-17''"
    by (simp_all add: filled_portal_def portal_idle_def)
  have nb: "\<not> blank ''C-17''"
    by (simp add: blank_def trim_def is_space_def)
  have u: "user_id agent_user = ''u2''" "user_email agent_user = ''agent@example.com''"
    by (simp_all add: agent_user_def)
  have sent: "snd (handleCrmSubmit accept filled_portal) =
       [Request (Patch_crm_context ''s1'' (ap_crmData filled_portal) ''u2'' ''agent@example.com''),
        Request (crm_form_submitted \<lparr>session_id = ''s1''\<rparr> (ap_crmData filled_portal)),
        Toast_success ''CRM information saved'']"
    using crm_submit_guarded [of filled_portal accept _ "\<lparr>session_id = ''s1''\<rparr>" agent_user] f nb u
    by (simp add: accept_def)
  then have issued: "Request (crm_form_submitted \<lparr>session_id = ''s1''\<rparr> (ap_crmData filled_portal))
       \<in> set (snd (handleCrmSubmit accept filled_portal))"
    by simp
  from crm_submit_guarded [of portal_idle accept]
    crm_submit_guarded [of filled_portal accept
      "crm_form_submitted \<lparr>session_id = ''s1''\<rparr> (ap_crmData filled_portal)"]
    b f nb sent issued
  show ?thesis by simp
qed

subsection \<open>Visible steps and the step counter\<close>

lemma cw_completeSession_version: "cw_version (fst (cw_completeSession snk s)) = cw_version s"
  by (simp add: cw_completeSession_def Let_def split: option.splits)

lemma cw_handleStepComplete_version:
  "cw_version (fst (cw_handleStepComplete snk s)) = cw_version s"
  by (simp add: cw_handleStepComplete_def Let_def split_beta cw_completeSession_version
      split: option.splits)

lemma cw_handleEscalation_version:
  "cw_version (fst (cw_handleEscalation snk s)) = cw_version s"
  by (simp add: cw_handleEscalation_def Let_def split: option.splits)

lemma cw_transition_version: "cw_transition s s' \<Longrightarrow> cw_version s' = cw_version s"
  by (induction rule: cw_transition.induct)
    (simp_all add: cw_handleInputChange_def cw_handleStepComplete_version
      cw_handleEscalation_version)

lemma cw_reach_version: "cw_transition\<^sup>*\<^sup>* s s' \<Longrightarrow> cw_version s' = cw_version s"
  by (induction rule: rtranclp_induct) (simp_all add: cw_transition_version)

lemma ap_completeSession_state: "fst (ap_completeSession snk s) = s"
  by (simp add: ap_completeSession_def Let_def split: option.splits)

lemma ap_handleStepComplete_version:
  "ap_currentVersion (fst (ap_handleStepComplete snk s)) = ap_currentVersion s"
  by (simp add: ap_handleStepComplete_def Let_def split_beta ap_completeSession_state
      split: option.splits)

lemma ap_handleEscalation_state: "fst (ap_handleEscalation snk s) = s"
  by (simp add: ap_handleEscalation_def Let_def split: option.splits)

lemma handleCrmSubmit_state: "fst (handleCrmSubmit snk s) = s"
  by (simp add: handleCrmSubmit_def Let_def split: option.splits)

lemma ap_transition_version: "ap_transition s s' \<Longrightarrow> ap_currentVersion s' = ap_currentVersion s"
  by (induction rule: ap_transition.induct)
    (simp_all add: ap_handleInputChange_def ap_handleStepComplete_version
      ap_completeSession_state ap_handleEscalation_state handleCrmSubmit_state)

lemma ap_reach_version: "ap_transition\<^sup>*\<^sup>* s s' \<Longrightarrow> ap_currentVersion s' = ap_currentVersion s"
  by (induction rule: rtranclp_induct) (simp_all add: ap_transition_version)

text \<open>
  C6. The customer's visible sequence is the node sequence without the steps whose
  visibility is agent, the agent's is the node sequence itself, and the former is a
  subsequence of the latter. After any number of transitions of a session on graph \<open>G\<close>
  the counter shows \<open>stepIndex + 1\<close> of the length of the role's visible sequence.
\<close>

theorem visible_steps_and_counter:
  "visibleSteps Customer G = filter (\<lambda>n. data_field visibility n \<noteq> Some ''agent'') G
   \<and> visibleSteps Agent G = G
   \<and> subseq (visibleSteps Customer G) (visibleSteps Agent G)
   \<and> (cw_transition\<^sup>*\<^sup>* s s' \<and> cw_nodes s = Some G \<longrightarrow>
        cw_step_of s' = Some (cw_stepIndex s' + 1, length (visibleSteps Customer G)))
   \<and> (ap_transition\<^sup>*\<^sup>* t t' \<and> ap_nodes t = Some G \<longrightarrow>
        ap_step_of t' = (ap_stepIndex t' + 1, length (visibleSteps Agent G)))"
proof -
  have "cw_step_of s' = Some (cw_stepIndex s' + 1, length (visibleSteps Customer G))"
    if "cw_transition\<^sup>*\<^sup>* s s'" and "cw_nodes s = Some G"
    using cw_reach_version [OF that(1)] that(2)
    by (simp add: cw_step_of_def cw_nodes_def visibleSteps_def)
  moreover have "ap_step_of t' = (ap_stepIndex t' + 1, length (visibleSteps Agent G))"
    if "ap_transition\<^sup>*\<^sup>* t t'" and "ap_nodes t = Some G"
    using ap_reach_version [OF that(1)] that(2)
    by (simp add: ap_step_of_def ap_node_count_def ap_nodes_def visibleSteps_def)
  ultimately show ?thesis
    by (simp add: visibleSteps_def agent_only_def)
qed

theorem visible_steps_and_counter_witness:
  "cw_transition\<^sup>*\<^sup>* mixed_widget (cw_handleInputChange ''q'' ''v'' mixed_widget)
   \<and> cw_nodes mixed_widget = Some mixed_graph
   \<and> cw_step_of (cw_handleInputChange ''q'' ''v'' mixed_widget) = Some (1, 1)
   \<and> ap_transition\<^sup>*\<^sup>* mixed_portal (ap_handleInputChange ''q'' ''v'' mixed_portal)
   \<and> ap_nodes mixed_portal = Some mixed_graph
   \<and> ap_step_of (ap_handleInputChange ''q'' ''v'' mixed_portal) = (1, 2)"
proof -
  have c: "cw_transition\<^sup>*\<^sup>* mixed_widget (cw_handleInputChange ''q'' ''v'' mixed_widget)"
    by (rule r_into_rtranclp) (rule cw_transition.cw_input)
  have cn: "cw_nodes mixed_widget = Some mixed_graph"
    by (simp add: cw_nodes_def mixed_widget_def)
  have a: "ap_transition\<^sup>*\<^sup>* mixed_portal (ap_handleInputChange ''q'' ''v'' mixed_portal)"
    by (rule r_into_rtranclp) (rule ap_transition.ap_input)
  have an: "ap_nodes mixed_portal = Some mixed_graph"
    by (simp add: ap_nodes_def mixed_portal_def)
  have lc: "length (visibleSteps Customer mixed_graph) = 1"
    by (simp add: visibleSteps_def mixed_graph_def agent_only_def data_field_def
        internal_step_def public_step_def plain_data_def)
  have la: "length (visibleSteps Agent mixed_graph) = 2"
    by (simp add: visibleSteps_def mixed_graph_def)
  have ic: "cw_stepIndex (cw_handleInputChange ''q'' ''v'' mixed_widget) = 0"
    by (simp add: cw_handleInputChange_def mixed_widget_def)
  have ia: "ap_stepIndex (ap_handleInputChange ''q'' ''v'' mixed_portal) = 0"
    by (simp add: ap_handleInputChange_def mixed_portal_def)
  from visible_steps_and_counter
    [of mixed_graph mixed_widget "cw_handleInputChange ''q'' ''v'' mixed_widget"
        mixed_portal "ap_handleInputChange ''q'' ''v'' mixed_portal"]
    c cn a an lc la ic ia
  show ?thesis by simp
qed

subsection \<open>Failing backend calls\<close>

lemma satisfied_no_throw: "missingInputs cur ans = [] \<Longrightarrow> validation_throws cur ans = False"
  by (cases "data_field inputs cur")
    (auto simp: missingInputs_def validation_throws_def trim_throws_def unanswered_def
      list_ex_iff filter_empty_conv)

lemma cw_completeSession_rejected:
  assumes "r \<in> set (requests (snd (cw_completeSession snk s)))" and "\<not> snk r"
  shows "fst (cw_completeSession snk s) = s \<and> error_toasts (snd (cw_completeSession snk s)) \<noteq> []"
  using assms
  by (auto simp: cw_completeSession_def cw_complete_failed_def requests_def error_toasts_def
      Let_def split: option.splits if_splits)

lemma cw_handleStepComplete_rejected:
  assumes "r \<in> set (requests (snd (cw_handleStepComplete snk s)))" and "\<not> snk r"
  shows "fst (cw_handleStepComplete snk s) = s
     \<and> error_toasts (snd (cw_handleStepComplete snk s)) \<noteq> []"
proof (cases "cw_completeSession snk s")
  case (Pair s' effs)
  with cw_completeSession_rejected [of r snk s] assms(2)
  have "r \<in> set (requests effs) \<longrightarrow> s' = s \<and> error_toasts effs \<noteq> []"
    by simp
  with assms Pair show ?thesis
    by (auto simp: cw_handleStepComplete_def cw_step_failed_def requests_def error_toasts_def
        Let_def split: option.splits if_splits)
qed

lemma cw_event_rejected:
  assumes "cw_currentStep s = Some cur" and "cw_session s = Some sess"
    and "missingInputs cur (cw_answers s) = []"
    and "\<not> snk (step_completed sess cur (cw_answers s))"
  shows "cw_handleStepComplete snk s =
     (s, Request (step_completed sess cur (cw_answers s)) # cw_step_failed)"
  using assms by (simp add: cw_handleStepComplete_def satisfied_no_throw)

lemma cw_last_index:
  assumes "cw_currentStep s = Some cur" and "cw_session s = Some sess"
    and "cw_nodes s = Some G"
    and "missingInputs cur (cw_answers s) = []"
    and "\<not> cw_stepIndex s + 1 < length (visibleSteps Customer G)"
  shows "cw_handleStepComplete snk s =
     (let e1 = step_completed sess cur (cw_answers s);
          c = Post_complete (session_id sess);
          e2 = session_completed sess (cw_stepIndex s + 1) (Some ''customer_completed'')
      in if \<not> snk e1 then (s, Request e1 # cw_step_failed)
         else if \<not> snk c then (s, Request e1 # Request c # cw_complete_failed)
         else if \<not> snk e2 then (s, Request e1 # Request c # Request e2 # cw_complete_failed)
         else (s\<lparr>cw_currentStep := Some completion_step\<rparr>, [Request e1, Request c, Request e2]))"
  using assms
  by (simp add: cw_handleStepComplete_def cw_completeSession_def visibleSteps_def Let_def
      satisfied_no_throw)

lemma cw_advance_ok:
  assumes "cw_currentStep s = Some cur" and "cw_session s = Some sess"
    and "cw_nodes s = Some G"
    and "missingInputs cur (cw_answers s) = []"
    and "snk (step_completed sess cur (cw_answers s))"
    and "cw_stepIndex s + 1 < length (visibleSteps Customer G)"
  shows "cw_handleStepComplete snk s =
     (s\<lparr>cw_stepIndex := cw_stepIndex s + 1,
        cw_currentStep := at_index (visibleSteps Customer G) (cw_stepIndex s + 1),
        cw_answers := []\<rparr>,
      [Request (step_completed sess cur (cw_answers s))])"
  using assms
  by (simp add: cw_handleStepComplete_def visibleSteps_def Let_def satisfied_no_throw)

lemma ap_event_rejected:
  assumes "ap_currentStep s = Some cur" and "ap_session s = Some sess"
    and "\<not> snk (step_completed sess cur (ap_answers s))"
  shows "ap_handleStepComplete snk s =
     (s, Request (step_completed sess cur (ap_answers s)) # ap_step_failed)"
  using assms by (simp add: ap_handleStepComplete_def)

text \<open>
  C3, as the code has it. A rejected call blocks the transition: whenever a request issued
  by the customer's \<open>handleStepComplete\<close> is rejected, the state is the one before the call
  and an error toast is among the effects. In particular a rejected \<open>step_completed\<close>
  event leaves the session at the same step, in both runtimes; from the last visible index
  the completion step is reached exactly when the \<open>step_completed\<close> event, the completion
  call and the \<open>session_completed\<close> event are all accepted. With an accepting backend the
  session moves on. Every path returns: no exception leaves the handler.
\<close>

theorem rejected_call_blocks_advance:
  "(r \<in> set (requests (snd (cw_handleStepComplete snk s))) \<and> \<not> snk r \<longrightarrow>
      fst (cw_handleStepComplete snk s) = s
      \<and> error_toasts (snd (cw_handleStepComplete snk s)) \<noteq> [])
   \<and> (cw_currentStep s = Some cur \<and> cw_session s = Some sess
        \<and> missingInputs cur (cw_answers s) = []
        \<and> \<not> snk (step_completed sess cur (cw_answers s)) \<longrightarrow>
      cw_handleStepComplete snk s =
        (s, Request (step_completed sess cur (cw_answers s)) # cw_step_failed))
   \<and> (cw_currentStep s = Some cur \<and> cw_session s = Some sess \<and> cw_nodes s = Some G
        \<and> missingInputs cur (cw_answers s) = []
        \<and> \<not> cw_stepIndex s + 1 < length (visibleSteps Customer G) \<longrightarrow>
      cw_handleStepComplete snk s =
        (let e1 = step_completed sess cur (cw_answers s);
             c = Post_complete (session_id sess);
             e2 = session_completed sess (cw_stepIndex s + 1) (Some ''customer_completed'')
         in if \<not> snk e1 then (s, Request e1 # cw_step_failed)
            else if \<not> snk c then (s, Request e1 # Request c # cw_complete_failed)
            else if \<not> snk e2 then (s, Request e1 # Request c # Request e2 # cw_complete_failed)
            else (s\<lparr>cw_currentStep := Some completion_step\<rparr>,
                  [Request e1, Request c, Request e2])))
   \<and> (cw_currentStep s = Some cur \<and> cw_session s = Some sess \<and> cw_nodes s = Some G
        \<and> missingInputs cur (cw_answers s) = []
        \<and> snk (step_completed sess cur (cw_answers s))
        \<and> cw_stepIndex s + 1 < length (visibleSteps Customer G) \<longrightarrow>
      cw_handleStepComplete snk s =
        (s\<lparr>cw_stepIndex := cw_stepIndex s + 1,
           cw_currentStep := at_index (visibleSteps Customer G) (cw_stepIndex s + 1),
           cw_answers := []\<rparr>,
         [Request (step_completed sess cur (cw_answers s))]))
   \<and> (ap_currentStep t = Some tcur \<and> ap_session t = Some tsess
        \<and> \<not> snk (step_completed tsess tcur (ap_answers t)) \<longrightarrow>
      ap_handleStepComplete snk t =
        (t, Request (step_completed tsess tcur (ap_answers t)) # ap_step_failed))"
  using cw_handleStepComplete_rejected [of r snk s] cw_event_rejected [of s cur sess snk]
    cw_last_index [of s cur sess G snk] cw_advance_ok [of s cur sess G snk]
    ap_event_rejected [of t tcur tsess snk]
  by blast

lemma scenario_widget_facts:
  "cw_currentStep scenario_widget = Some step_a"
  "cw_session scenario_widget = Some scenario_session"
  "cw_nodes scenario_widget = Some scenario_graph"
  "cw_answers scenario_widget = []"
  "cw_stepIndex scenario_widget = 0"
  by (simp_all add: scenario_widget_def cw_nodes_def)

lemma step_a_satisfied: "missingInputs step_a ans = []"
  by (simp add: missingInputs_def unanswered_def step_a_def plain_data_def data_field_def)

lemma answered_widget_facts:
  "cw_currentStep answered_widget = Some step_b"
  "cw_session answered_widget = Some scenario_session"
  "cw_nodes answered_widget = Some scenario_graph"
  "cw_answers answered_widget = [(''q1'', ''yes'')]"
  "cw_stepIndex answered_widget = 1"
  by (simp_all add: answered_widget_def scenario_widget_def cw_nodes_def)

lemma step_b_answered: "missingInputs step_b [(''q1'', ''yes'')] = []"
  by (simp add: missingInputs_def unanswered_def step_b_def plain_data_def data_field_def
      blank_def trim_def is_space_def)

lemma scenario_visible: "visibleSteps Customer scenario_graph = scenario_graph"
  "length scenario_graph = 2"
  by (simp_all add: visibleSteps_def scenario_graph_def agent_only_def data_field_def step_a_def
      step_b_def plain_data_def)

theorem rejected_call_blocks_advance_witness:
  "step_completed scenario_session step_a []
     \<in> set (requests (snd (cw_handleStepComplete reject scenario_widget)))
   \<and> \<not> reject (step_completed scenario_session step_a [])
   \<and> cw_currentStep scenario_widget = Some step_a
   \<and> cw_session scenario_widget = Some scenario_session
   \<and> cw_nodes scenario_widget = Some scenario_graph
   \<and> missingInputs step_a (cw_answers scenario_widget) = []
   \<and> cw_handleStepComplete reject scenario_widget =
       (scenario_widget, Request (step_completed scenario_session step_a []) # cw_step_failed)
   \<and> error_toasts (snd (cw_handleStepComplete reject scenario_widget)) \<noteq> []
   \<and> cw_stepIndex scenario_widget + 1 < length (visibleSteps Customer scenario_graph)
   \<and> accept (step_completed scenario_session step_a [])
   \<and> cw_handleStepComplete accept scenario_widget =
       (scenario_widget\<lparr>cw_stepIndex := 1, cw_currentStep := Some step_b, cw_answers := []\<rparr>,
        [Request (step_completed scenario_session step_a [])])
   \<and> cw_currentStep answered_widget = Some step_b
   \<and> cw_session answered_widget = Some scenario_session
   \<and> cw_nodes answered_widget = Some scenario_graph
   \<and> missingInputs step_b (cw_answers answered_widget) = []
   \<and> \<not> cw_stepIndex answered_widget + 1 < length (visibleSteps Customer scenario_graph)
   \<and> cw_handleStepComplete reject_completion answered_widget =
       (answered_widget,
        Request (step_completed scenario_session step_b [(''q1'', ''yes'')])
          # Request (Post_complete ''s1'') # cw_complete_failed)
   \<and> ap_currentStep scenario_portal = Some step_a
   \<and> ap_session scenario_portal = Some scenario_session
   \<and> ap_handleStepComplete reject scenario_portal =
       (scenario_portal, Request (step_completed scenario_session step_a []) # ap_step_failed)"
proof -
  note w = scenario_widget_facts
  note a = answered_widget_facts
  have p: "ap_currentStep scenario_portal = Some step_a"
    "ap_session scenario_portal = Some scenario_session" "ap_answers scenario_portal = []"
    by (simp_all add: scenario_portal_def)
  have k: "\<not> reject (step_completed scenario_session step_a [])"
    "accept (step_completed scenario_session step_a [])"
    "reject_completion (step_completed scenario_session step_b [(''q1'', ''yes'')])"
    "\<not> reject_completion (Post_complete (session_id scenario_session))"
    "session_id scenario_session = ''s1''"
    by (simp_all add: reject_def accept_def reject_completion_def step_completed_def
        scenario_session_def)
  have i: "at_index scenario_graph 1 = Some step_b"
    by (simp add: at_index_def scenario_graph_def)
  have blocked: "cw_handleStepComplete reject scenario_widget =
       (scenario_widget, Request (step_completed scenario_session step_a []) # cw_step_failed)"
    using rejected_call_blocks_advance
      [of _ reject scenario_widget step_a scenario_session] w step_a_satisfied k
    by simp
  then have issued: "step_completed scenario_session step_a []
     \<in> set (requests (snd (cw_handleStepComplete reject scenario_widget)))"
    by (simp add: requests_def)
  have toast: "error_toasts (snd (cw_handleStepComplete reject scenario_widget)) \<noteq> []"
    using rejected_call_blocks_advance
      [of "step_completed scenario_session step_a []" reject scenario_widget] issued k
    by blast
  have moved: "cw_handleStepComplete accept scenario_widget =
       (scenario_widget\<lparr>cw_stepIndex := 1, cw_currentStep := Some step_b, cw_answers := []\<rparr>,
        [Request (step_completed scenario_session step_a [])])"
    using rejected_call_blocks_advance
      [of _ accept scenario_widget step_a scenario_session scenario_graph]
      w step_a_satisfied k scenario_visible i
    by simp
  have last: "cw_handleStepComplete reject_completion answered_widget =
       (answered_widget,
        Request (step_completed scenario_session step_b [(''q1'', ''yes'')])
          # Request (Post_complete ''s1'') # cw_complete_failed)"
    using rejected_call_blocks_advance
      [of _ reject_completion answered_widget step_b scenario_session scenario_graph]
      a step_b_answered k scenario_visible
    by (simp add: Let_def)
  have agent: "ap_handleStepComplete reject scenario_portal =
       (scenario_portal, Request (step_completed scenario_session step_a []) # ap_step_failed)"
    using rejected_call_blocks_advance
      [of _ reject _ _ _ _ scenario_portal step_a scenario_session] p k
    by simp
  from blocked issued toast moved last agent w a p k step_a_satisfied step_b_answered
    scenario_visible
  show ?thesis by simp
qed

text \<open>
  Optimistic advancement, as the specification words it, fails: with the event log down the
  customer stays at index 0 instead of moving to index 1, and with the completion endpoint
  down the last step does not become the completion step.
\<close>

theorem rejected_call_counterexample:
  "\<not> (cw_stepIndex (fst (cw_handleStepComplete reject scenario_widget)) = 1)
   \<and> \<not> (cw_currentStep (fst (cw_handleStepComplete reject_completion answered_widget))
          = Some completion_step)
   \<and> cw_stepIndex (fst (cw_handleStepComplete accept scenario_widget)) = 1
   \<and> cw_currentStep (fst (cw_handleStepComplete accept answered_widget)) = Some completion_step"
  by (simp add: cw_handleStepComplete_def cw_completeSession_def scenario_widget_def
      answered_widget_def missingInputs_def unanswered_def step_a_def step_b_def plain_data_def data_field_def
      scenario_graph_def scenario_session_def cw_nodes_def agent_only_def reject_def accept_def
      reject_completion_def step_completed_def session_completed_def blank_def trim_def
      is_space_def completion_step_def at_index_def validation_throws_def trim_throws_def
      Let_def)

subsection \<open>Escalation\<close>

lemma cw_handleEscalation_blank:
  "blank (cw_escalationMessage s) \<Longrightarrow>
     cw_handleEscalation snk s = (s, [Toast_error ''Please describe your issue''])"
  by (simp add: cw_handleEscalation_def)

lemma cw_handleEscalation_requests:
  assumes "\<not> blank (cw_escalationMessage s)" and "cw_escalationData s = Some d"
  shows "requests (snd (cw_handleEscalation snk s)) =
     (if snk (Post_escalation d) then [Post_escalation d, escalation_submitted d]
      else [Post_escalation d])"
  using assms
  by (simp add: cw_handleEscalation_def cw_escalation_failed_def requests_def Let_def)

lemma cw_handleEscalation_events:
  assumes "\<not> blank (cw_escalationMessage s)" and "cw_escalationData s = Some d"
  shows "length (events_with ''escalation_submitted'' (snd (cw_handleEscalation snk s))) =
     (if snk (Post_escalation d) then 1 else 0)"
  by (simp add: events_with_def cw_handleEscalation_requests [OF assms] escalation_submitted_def)

lemma cw_handleEscalation_traversal:
  "cw_stepIndex (fst (cw_handleEscalation snk s)) = cw_stepIndex s
   \<and> cw_answers (fst (cw_handleEscalation snk s)) = cw_answers s
   \<and> cw_currentStep (fst (cw_handleEscalation snk s)) = cw_currentStep s"
  by (simp add: cw_handleEscalation_def Let_def split: option.splits)

text \<open>
  C7, as the code has it. In the customer widget a message that is blank after trimming
  is refused with a notification and nothing is sent. Otherwise the escalation record goes
  to the escalation endpoint, and the \<open>escalation_submitted\<close> event, carrying the same
  record, follows exactly when the endpoint accepted the record. In every outcome, and in
  the agent portal as well, step index, current step and answers are what they were.
\<close>

theorem escalation_validated_and_orthogonal:
  "(blank (cw_escalationMessage s) \<longrightarrow>
      cw_handleEscalation snk s = (s, [Toast_error ''Please describe your issue'']))
   \<and> (\<not> blank (cw_escalationMessage s) \<and> cw_escalationData s = Some d \<longrightarrow>
        requests (snd (cw_handleEscalation snk s)) =
          (if snk (Post_escalation d) then [Post_escalation d, escalation_submitted d]
           else [Post_escalation d])
        \<and> length (events_with ''escalation_submitted'' (snd (cw_handleEscalation snk s))) =
          (if snk (Post_escalation d) then 1 else 0))
   \<and> cw_stepIndex (fst (cw_handleEscalation snk s)) = cw_stepIndex s
   \<and> cw_answers (fst (cw_handleEscalation snk s)) = cw_answers s
   \<and> cw_currentStep (fst (cw_handleEscalation snk s)) = cw_currentStep s
   \<and> fst (ap_handleEscalation snk t) = t"
  using cw_handleEscalation_blank [of s snk] cw_handleEscalation_requests [of s d snk]
    cw_handleEscalation_events [of s d snk] cw_handleEscalation_traversal [of snk s]
    ap_handleEscalation_state [of snk t]
  by blast

lemma help_widget_data: "cw_escalationData help_widget = Some help_record"
  by (simp add: cw_escalationData_def help_widget_def scenario_widget_def scenario_session_def
      some_guide_def step_a_def plain_data_def scenario_graph_def cw_nodes_def category_of_def
      data_field_def help_record_def)

lemma help_not_blank: "\<not> blank ''help''"
  by (simp add: blank_def trim_def is_space_def)

theorem escalation_validated_and_orthogonal_witness:
  "blank (cw_escalationMessage scenario_widget)
   \<and> cw_handleEscalation accept scenario_widget =
       (scenario_widget, [Toast_error ''Please describe your issue''])
   \<and> \<not> blank (cw_escalationMessage help_widget)
   \<and> cw_escalationData help_widget = Some help_record
   \<and> length (events_with ''escalation_submitted'' (snd (cw_handleEscalation accept help_widget))) = 1"
proof -
  have b: "blank (cw_escalationMessage scenario_widget)"
    by (simp add: scenario_widget_def blank_def trim_def)
  have nb: "\<not> blank (cw_escalationMessage help_widget)"
    by (simp add: help_widget_def help_not_blank)
  from escalation_validated_and_orthogonal [of scenario_widget accept]
    escalation_validated_and_orthogonal [of help_widget accept help_record] b nb help_widget_data
  show ?thesis
    by (simp add: accept_def)
qed

text \<open>
  An unconditional notification, as the specification words it, fails: the customer's message
  is not blank and the record is sent, but the escalation endpoint rejects it, and no
  \<open>escalation_submitted\<close> event follows.
\<close>

theorem escalation_event_counterexample:
  "\<not> blank (cw_escalationMessage help_widget)
   \<and> length (requests (snd (cw_handleEscalation reject help_widget))) = 1
   \<and> \<not> (length (events_with ''escalation_submitted'' (snd (cw_handleEscalation reject help_widget))) = 1)"
  by (simp add: cw_handleEscalation_def help_widget_data events_with_def requests_def
      cw_escalation_failed_def reject_def Let_def)
    (simp add: help_widget_def help_not_blank)

subsection \<open>The escalation snapshot\<close>










subsection \<open>Required inputs\<close>

lemma missingInputs_iff:
  "missingInputs cur ans \<noteq> [] \<longleftrightarrow>
     (\<exists>input \<in> set (case data_field inputs cur of None \<Rightarrow> [] | Some ins \<Rightarrow> ins).
        required input \<and> unanswered ans input)"
  by (cases "data_field inputs cur") (auto simp: missingInputs_def filter_empty_conv)

lemma cw_validation_blocks:
  assumes "cw_currentStep s = Some cur" and "missingInputs cur (cw_answers s) \<noteq> []"
    and "\<not> validation_throws cur (cw_answers s)"
  shows "cw_handleStepComplete snk s = (s, [Toast_error ''Please fill in all required fields''])"
  using assms by (simp add: cw_handleStepComplete_def)

lemma cw_validation_throws:
  assumes "cw_currentStep s = Some cur" and "validation_throws cur (cw_answers s)"
  shows "cw_handleStepComplete snk s = (s, cw_step_failed)"
  using assms by (simp add: cw_handleStepComplete_def)

lemma no_required_inputs:
  assumes "\<forall>input \<in> set (case data_field inputs cur of None \<Rightarrow> [] | Some ins \<Rightarrow> ins). \<not> required input"
  shows "missingInputs cur ans = []"
  using assms missingInputs_iff [of cur ans] by blast

lemma step_b_missing: "missingInputs step_b [] \<noteq> []"
  by (simp add: missingInputs_def unanswered_def step_b_def plain_data_def data_field_def)

lemma step_b_no_throw: "\<not> validation_throws step_b []"
  by (simp add: validation_throws_def trim_throws_def object_prototype_keys_def step_b_def
      plain_data_def data_field_def)

text \<open>
  C2 at a failing input. Step \<open>b\<close> has the required input \<open>q1\<close> and nothing has been
  answered. The customer's advance is refused and stays at index 0; the agent's advance
  runs no check, logs the empty answers and moves to index 1.
\<close>

theorem agent_advance_without_validation:
  "missingInputs step_b [] \<noteq> []
   \<and> cw_handleStepComplete accept reversed_widget =
       (reversed_widget, [Toast_error ''Please fill in all required fields''])
   \<and> ap_handleStepComplete accept reversed_portal =
       (reversed_portal\<lparr>ap_stepIndex := 1, ap_currentStep := Some step_a, ap_answers := []\<rparr>,
        [Request (step_completed scenario_session step_b [])])"
proof -
  have "cw_currentStep reversed_widget = Some step_b" "cw_answers reversed_widget = []"
    by (simp_all add: reversed_widget_def scenario_widget_def)
  then have c: "cw_handleStepComplete accept reversed_widget =
       (reversed_widget, [Toast_error ''Please fill in all required fields''])"
    using step_b_missing step_b_no_throw by (simp add: cw_validation_blocks)
  have a: "ap_handleStepComplete accept reversed_portal =
       (reversed_portal\<lparr>ap_stepIndex := 1, ap_currentStep := Some step_a, ap_answers := []\<rparr>,
        [Request (step_completed scenario_session step_b [])])"
    by (simp add: ap_handleStepComplete_def reversed_portal_def scenario_portal_def ap_nodes_def
        accept_def at_index_def Let_def)
  from step_b_missing c a show ?thesis by simp
qed

subsection \<open>Events of an advance\<close>

lemma cw_advance_events:
  assumes "cw_currentStep s = Some cur" and "cw_session s = Some sess" and "cw_nodes s = Some G"
    and "missingInputs cur (cw_answers s) = []"
    and "\<forall>r. snk r"
  shows "events_with ''step_completed'' (snd (cw_handleStepComplete snk s)) =
       [\<lparr>ev_session_id = session_id sess, ev_step_id = node_id cur,
         ev_action = ''step_completed'', ev_props = Answers_props (cw_answers s)\<rparr>]"
    and "length (events_with ''session_completed'' (snd (cw_handleStepComplete snk s))) =
       (if cw_stepIndex s + 1 < length (visibleSteps Customer G) then 0 else 1)"
proof -
  show "events_with ''step_completed'' (snd (cw_handleStepComplete snk s)) =
       [\<lparr>ev_session_id = session_id sess, ev_step_id = node_id cur,
         ev_action = ''step_completed'', ev_props = Answers_props (cw_answers s)\<rparr>]"
  proof (cases "cw_stepIndex s + 1 < length (visibleSteps Customer G)")
    case True
    with assms show ?thesis
      by (simp add: cw_advance_ok [of s cur sess G snk] events_with_def requests_def
          step_completed_def)
  next
    case False
    with assms show ?thesis
      by (simp add: cw_last_index [of s cur sess G snk] events_with_def requests_def
          step_completed_def session_completed_def Let_def)
  qed
  show "length (events_with ''session_completed'' (snd (cw_handleStepComplete snk s))) =
       (if cw_stepIndex s + 1 < length (visibleSteps Customer G) then 0 else 1)"
  proof (cases "cw_stepIndex s + 1 < length (visibleSteps Customer G)")
    case True
    with assms show ?thesis
      by (simp add: cw_advance_ok [of s cur sess G snk] events_with_def requests_def
          step_completed_def)
  next
    case False
    with assms show ?thesis
      by (simp add: cw_last_index [of s cur sess G snk] events_with_def requests_def
          step_completed_def session_completed_def Let_def)
  qed
qed

text \<open>
  C4 at a failing input. At the last step of the scenario, with \<open>q1\<close> answered and an
  accepting backend, the agent's navigation button runs \<open>completeSession\<close> directly: one
  \<open>session_completed\<close> event and no \<open>step_completed\<close> event for the last step. The
  customer's button, in the same situation, logs both.
\<close>

theorem agent_final_advance_events:
  "map_option (\<lambda>(s', effs). (length (events_with ''step_completed'' effs),
                              length (events_with ''session_completed'' effs)))
     (ap_navigation_click accept last_portal) = Some (0, 1)
   \<and> events_with ''step_completed'' (snd (cw_handleStepComplete accept answered_widget)) =
       [\<lparr>ev_session_id = ''s1'', ev_step_id = Some ''b'', ev_action = ''step_completed'',
         ev_props = Answers_props [(''q1'', ''yes'')]\<rparr>]
   \<and> length (events_with ''session_completed'' (snd (cw_handleStepComplete accept answered_widget))) = 1"
proof -
  have a: "ap_navigation_click accept last_portal = Some (ap_completeSession accept last_portal)"
    by (simp add: ap_navigation_click_def last_portal_def scenario_portal_def ap_node_count_def
        ap_nodes_def scenario_graph_def)
  have b: "requests (snd (ap_completeSession accept last_portal)) =
     [Post_complete ''s1'', session_completed scenario_session 2 None,
      Clipboard_write ''Router help'' ''agent@example.com'' ''s1'' ''C-17'' 2 [(''q1'', ''yes'')]]"
    by (simp add: ap_completeSession_def generateCrmNote_def last_portal_def scenario_portal_def
        scenario_session_def some_guide_def agent_user_def accept_def requests_def
        ap_complete_failed_def numeral_2_eq_2 Let_def)
  have m: "missingInputs step_b [(''q1'', ''yes'')] = []"
    by (simp add: missingInputs_def unanswered_def step_b_def plain_data_def data_field_def blank_def trim_def
        is_space_def)
  have v: "length (visibleSteps Customer scenario_graph) = 2"
    by (simp add: visibleSteps_def scenario_graph_def agent_only_def data_field_def step_a_def
        step_b_def plain_data_def)
  have w: "cw_currentStep answered_widget = Some step_b"
    "cw_session answered_widget = Some scenario_session"
    "cw_nodes answered_widget = Some scenario_graph"
    "cw_answers answered_widget = [(''q1'', ''yes'')]"
    "cw_stepIndex answered_widget = 1"
    by (simp_all add: answered_widget_def scenario_widget_def cw_nodes_def)
  have acc: "\<forall>r. accept r"
    by (simp add: accept_def)
  from cw_advance_events [of answered_widget step_b scenario_session scenario_graph accept] w m v acc
  have c: "events_with ''step_completed'' (snd (cw_handleStepComplete accept answered_widget)) =
       [\<lparr>ev_session_id = ''s1'', ev_step_id = Some ''b'', ev_action = ''step_completed'',
         ev_props = Answers_props [(''q1'', ''yes'')]\<rparr>]"
    "length (events_with ''session_completed'' (snd (cw_handleStepComplete accept answered_widget))) = 1"
    by (simp_all add: scenario_session_def step_b_def)
  have d: "length (events_with ''step_completed'' (snd (ap_completeSession accept last_portal))) = 0"
    "length (events_with ''session_completed'' (snd (ap_completeSession accept last_portal))) = 1"
    by (simp_all add: events_with_def b session_completed_def)
  show ?thesis
    by (simp add: a c d split_beta)
qed

subsection \<open>The start index\<close>

lemma findIndex_range:
  "findIndex P xs = -1 \<or> (0 \<le> findIndex P xs \<and> nat (findIndex P xs) < length xs)"
  by (induction xs) (auto simp: Let_def)

lemma findIndex_miss: "findIndex P xs = -1 \<longleftrightarrow> (\<forall>x \<in> set xs. \<not> P x)"
proof (induction xs)
  case Nil
  show ?case by simp
next
  case (Cons x xs)
  with findIndex_range [of P xs] show ?case
    by (auto simp: Let_def)
qed

lemma resolveStepIndex_bound: "nodes \<noteq> [] \<Longrightarrow> resolveStepIndex nodes stepSlug < length nodes"
  using findIndex_range [of "\<lambda>n. data_field slug n = stepSlug \<or> node_id n = stepSlug" nodes]
  by (auto simp: resolveStepIndex_def Let_def)

lemma resolveStepIndex_miss:
  "\<forall>n \<in> set nodes. data_field slug n \<noteq> stepSlug \<and> node_id n \<noteq> stepSlug \<Longrightarrow>
     resolveStepIndex nodes stepSlug = 0"
  using findIndex_miss [of "\<lambda>n. data_field slug n = stepSlug \<or> node_id n = stepSlug" nodes]
  by (auto simp: resolveStepIndex_def Let_def)

text \<open>
  C5 at a failing input. On the graph of one agent-only step \<open>n1\<close> followed by the
  customer step \<open>n2\<close>, the customer route to \<open>n2\<close> yields index 1, its position among
  all nodes, while \<open>n2\<close> is at position 0 of the one-element visible sequence: the widget
  then shows "Step 2 of 1". Without a step in the route the widget starts on the
  agent-only step.
\<close>

theorem start_index_counts_hidden_steps:
  "resolveStepIndex mixed_graph (Some ''n2'') = 1
   \<and> visibleSteps Customer mixed_graph = [public_step]
   \<and> findIndex (\<lambda>n. data_field slug n = Some ''n2'' \<or> node_id n = Some ''n2'')
        (visibleSteps Customer mixed_graph) = 0
   \<and> cw_step_of (fst (loadGuideAndStartSession ''router'' (Some ''n2'') (Some [some_guide])
        (Some \<lparr>graph_nodes = Some mixed_graph\<rparr>) (Some scenario_session) initial_widget))
      = Some (2, 1)
   \<and> cw_currentStep (fst (loadGuideAndStartSession ''router'' None (Some [some_guide])
        (Some \<lparr>graph_nodes = Some mixed_graph\<rparr>) (Some scenario_session) initial_widget))
      = Some internal_step"
proof -
  have v: "agent_only internal_step" "\<not> agent_only public_step"
    by (simp_all add: agent_only_def data_field_def internal_step_def public_step_def
        plain_data_def)
  have i: "node_id internal_step = Some ''n1''" "node_id public_step = Some ''n2''"
    "data_field slug internal_step = None" "data_field slug public_step = None"
    by (simp_all add: internal_step_def public_step_def plain_data_def data_field_def)
  have r: "resolveStepIndex mixed_graph (Some ''n2'') = 1"
    by (simp add: resolveStepIndex_def truthy_def mixed_graph_def i Let_def)
  have r0: "resolveStepIndex mixed_graph None = 0"
    by (simp add: resolveStepIndex_def truthy_def)
  have vs: "visibleSteps Customer mixed_graph = [public_step]"
    by (simp add: visibleSteps_def mixed_graph_def v)
  have g: "truthy (current_version_id some_guide)" "guide_slug some_guide = ''router''"
    by (simp_all add: some_guide_def truthy_def)
  have l: "length mixed_graph = 2" "at_index mixed_graph 0 = Some internal_step"
    "mixed_graph \<noteq> []"
    by (simp_all add: mixed_graph_def at_index_def)
  have f: "filter (\<lambda>n. \<not> agent_only n) mixed_graph = [public_step]"
    using vs by (simp add: visibleSteps_def)
  show ?thesis
    by (simp add: r r0 vs i loadGuideAndStartSession_def g l f cw_step_of_def cw_nodes_def
        Let_def)
qed

end
